theory Spec2Isabelle
  imports Complex_Main "HOL-Library.Word"
begin

text \<open>
  ScratchIt, the engine of a scratch-off widget: an opaque overlay image is erased by
  pointer strokes stamped with a brush image, and a callback is called once enough of the
  overlay is transparent. The closure variables of \<open>ScratchIt\<close> form the state, every
  handler is a function from state to outcome, and what a handler does to the page is
  recorded in a trace of effects.
\<close>

section \<open>JavaScript numbers\<close>

text \<open>
  The engine computes with JavaScript Numbers. A Number is modelled as a real number or
  one of the three special values; the rounding of IEEE doubles is not represented, and
  the two zeros are identified (no divisor of the engine can be a negative zero: its
  divisors are pixel counts, half a brush width, a segment count and a width ratio).
\<close>

datatype js_number = Fin real | PosInf | NegInf | NaN

fun js_neg :: "js_number \<Rightarrow> js_number" where
  "js_neg (Fin a) = Fin (- a)"
| "js_neg PosInf = NegInf"
| "js_neg NegInf = PosInf"
| "js_neg NaN = NaN"

fun js_add :: "js_number \<Rightarrow> js_number \<Rightarrow> js_number" where
  "js_add (Fin a) (Fin b) = Fin (a + b)"
| "js_add NaN _ = NaN"
| "js_add _ NaN = NaN"
| "js_add PosInf NegInf = NaN"
| "js_add NegInf PosInf = NaN"
| "js_add PosInf _ = PosInf"
| "js_add _ PosInf = PosInf"
| "js_add NegInf _ = NegInf"
| "js_add _ NegInf = NegInf"

definition js_sub :: "js_number \<Rightarrow> js_number \<Rightarrow> js_number" where
  "js_sub a b = js_add a (js_neg b)"

text \<open>An infinity of the given sign (\<open>True\<close> is positive).\<close>

definition js_inf :: "bool \<Rightarrow> js_number" where
  "js_inf positive = (if positive then PosInf else NegInf)"

fun js_mul :: "js_number \<Rightarrow> js_number \<Rightarrow> js_number" where
  "js_mul (Fin a) (Fin b) = Fin (a * b)"
| "js_mul NaN _ = NaN"
| "js_mul _ NaN = NaN"
| "js_mul (Fin a) PosInf = (if a = 0 then NaN else js_inf (0 < a))"
| "js_mul (Fin a) NegInf = (if a = 0 then NaN else js_inf (a < 0))"
| "js_mul PosInf (Fin b) = (if b = 0 then NaN else js_inf (0 < b))"
| "js_mul NegInf (Fin b) = (if b = 0 then NaN else js_inf (b < 0))"
| "js_mul PosInf PosInf = PosInf"
| "js_mul NegInf NegInf = PosInf"
| "js_mul PosInf NegInf = NegInf"
| "js_mul NegInf PosInf = NegInf"

fun js_div :: "js_number \<Rightarrow> js_number \<Rightarrow> js_number" where
  "js_div (Fin a) (Fin b) =
     (if b = 0 then (if a = 0 then NaN else js_inf (0 < a)) else Fin (a / b))"
| "js_div NaN _ = NaN"
| "js_div _ NaN = NaN"
| "js_div (Fin a) PosInf = Fin 0"
| "js_div (Fin a) NegInf = Fin 0"
| "js_div PosInf (Fin b) = js_inf (0 \<le> b)"
| "js_div NegInf (Fin b) = js_inf (b < 0)"
| "js_div PosInf PosInf = NaN"
| "js_div PosInf NegInf = NaN"
| "js_div NegInf PosInf = NaN"
| "js_div NegInf NegInf = NaN"

text \<open>\<open>Math.sqrt\<close>, \<open>Math.ceil\<close> and \<open>Math.round\<close> (which rounds a tie upwards).\<close>

fun js_sqrt :: "js_number \<Rightarrow> js_number" where
  "js_sqrt (Fin a) = (if a < 0 then NaN else Fin (sqrt a))"
| "js_sqrt PosInf = PosInf"
| "js_sqrt NegInf = NaN"
| "js_sqrt NaN = NaN"

fun js_ceil :: "js_number \<Rightarrow> js_number" where
  "js_ceil (Fin a) = Fin (of_int \<lceil>a\<rceil>)"
| "js_ceil n = n"

fun js_round :: "js_number \<Rightarrow> js_number" where
  "js_round (Fin a) = Fin (of_int \<lfloor>a + 1 / 2\<rfloor>)"
| "js_round n = n"

text \<open>The comparisons \<open><\<close>, \<open>>\<close> and \<open>>=\<close>: every comparison with \<open>NaN\<close> is false.\<close>

fun js_lt :: "js_number \<Rightarrow> js_number \<Rightarrow> bool" where
  "js_lt (Fin a) (Fin b) = (a < b)"
| "js_lt NaN _ = False"
| "js_lt _ NaN = False"
| "js_lt _ NegInf = False"
| "js_lt PosInf _ = False"
| "js_lt NegInf _ = True"
| "js_lt _ PosInf = True"

definition js_gt :: "js_number \<Rightarrow> js_number \<Rightarrow> bool" where
  "js_gt a b = js_lt b a"

definition js_ge :: "js_number \<Rightarrow> js_number \<Rightarrow> bool" where
  "js_ge a b = (a \<noteq> NaN \<and> b \<noteq> NaN \<and> \<not> js_lt a b)"

text \<open>\<open>Math.max\<close> and \<open>Math.min\<close> of two arguments: \<open>NaN\<close> if either is.\<close>

definition Math_max :: "js_number \<Rightarrow> js_number \<Rightarrow> js_number" where
  "Math_max a b = (if a = NaN \<or> b = NaN then NaN else if js_lt a b then b else a)"

definition Math_min :: "js_number \<Rightarrow> js_number \<Rightarrow> js_number" where
  "Math_min a b = (if a = NaN \<or> b = NaN then NaN else if js_lt b a then b else a)"

section \<open>The engine's data\<close>

text \<open>A point in overlay-surface space, as the object \<open>{x, y}\<close>.\<close>

type_synonym point = "js_number \<times> js_number"

text \<open>
  A canvas: its dimensions and its pixel buffer, four bytes (red, green, blue, alpha) per
  pixel in row order, as \<open>getImageData\<close> returns it.
\<close>

record canvas =
  width :: nat
  height :: nat
  data :: "8 word list"

text \<open>The blend mode of a drawing context; \<open>SourceOver\<close> is a fresh context's default.\<close>

datatype composite_op = SourceOver | DestinationOut

datatype error = TypeError | IndexSizeError | InvalidStateError | Thrown string

text \<open>
  The values an optional argument of the constructor may be, and their conversion to a
  Number by \<open>* 1\<close>. Strings and objects other than functions are left out. A function
  is opaque: calling it has no effect on the engine other than that it was called, and
  the call returns.
\<close>

datatype js_value = JSUndefined | JSNull | JSBoolean bool | JSNumber js_number | JSFunction

fun times_one :: "js_value \<Rightarrow> js_number" where
  "times_one JSUndefined = NaN"
| "times_one JSNull = Fin 0"
| "times_one (JSBoolean b) = Fin (if b then 1 else 0)"
| "times_one (JSNumber n) = n"
| "times_one JSFunction = NaN"

text \<open>What the engine does to its surroundings, in the order it does it.\<close>

datatype effect =
    ConsoleError
  | AppendChild
  | AddEventListener string string string
  | RequestAnimationFrame
  | LoadedCallback
  | DownCallback
  | UpCallback
  | RevealCallback
  | CancelEvent
  | GetImageData

text \<open>
  The closure variables of \<open>ScratchIt\<close>. \<open>overlayCanvas\<close> and \<open>brushCanvas\<close> are \<open>None\<close>
  while unset and after a failed load (the value \<open>false\<close>); \<open>overlayCtx\<close> is the overlay's
  drawing context, reduced to the one attribute the engine sets. \<open>revealCallback\<close> is a
  function, as \<open>construct\<close> has checked; the other three callbacks are whatever the caller
  passed. \<open>trace\<close> records the effects so far.
\<close>

record state =
  overlayCanvas :: "canvas option"
  overlayCtx :: "composite_op option"
  brushCanvas :: "canvas option"
  overlayLoaded :: bool
  brushLoaded :: bool
  isPointerDown :: bool
  pointerOrigin :: "real \<times> real"
  offsetOrigin :: "real \<times> real"
  scale :: js_number
  paintQueue :: "point list"
  lastPoint :: "point option"
  minPointDist :: js_number
  isRevealed :: bool
  revealThreshold :: js_number
  loadedCallback :: js_value
  downCallback :: js_value
  upCallback :: js_value
  trace :: "effect list"

text \<open>How a handler ends: it returns, it throws (what it did before stays done), or it never returns.\<close>

datatype outcome = Returned state | Threw error state | Hangs

text \<open>Running a second step after a first one that returned.\<close>

definition then_do :: "outcome \<Rightarrow> (state \<Rightarrow> outcome) \<Rightarrow> outcome" where
  "then_do out f = (case out of Returned s \<Rightarrow> f s | Threw err s \<Rightarrow> Threw err s | Hangs \<Rightarrow> Hangs)"

text \<open>Calling one of the callbacks: a value that is no function cannot be called.\<close>

definition call :: "js_value \<Rightarrow> effect \<Rightarrow> state \<Rightarrow> outcome" where
  "call f called s =
     (if f = JSFunction then Returned (s\<lparr>trace := trace s @ [called]\<rparr>) else Threw TypeError s)"

section \<open>Stroke interpolation\<close>

text \<open>
  The loop \<open>for (i = 1; i < numSegments; i++) paintQueue.push(...)\<close> of \<open>addPoint\<close>.
  It has no exit when \<open>numSegments\<close> is infinite; \<open>None\<close> stands for that.
\<close>

partial_function (option) tween_loop ::
  "nat \<Rightarrow> js_number \<Rightarrow> js_number \<Rightarrow> js_number \<Rightarrow> point \<Rightarrow> point list \<Rightarrow> point list option"
where
  "tween_loop i numSegments dx dy point queue =
     (if js_lt (Fin (real i)) numSegments
      then tween_loop (i + 1) numSegments dx dy point
             (queue @ [(js_round (js_add (fst point) (js_mul (Fin (real i)) dx)),
                        js_round (js_add (snd point) (js_mul (Fin (real i)) dy)))])
      else Some queue)"

definition addPoint :: "point \<Rightarrow> bool \<Rightarrow> state \<Rightarrow> state option" where
  "addPoint point tween s =
     (let tweened =
        (case lastPoint s of
           Some lp \<Rightarrow>
             if tween then
               (let dx = js_sub (fst lp) (fst point);
                    dy = js_sub (snd lp) (snd point);
                    dist = js_sqrt (js_add (js_mul dx dx) (js_mul dy dy))
                in if js_gt dist (minPointDist s)
                   then (let numSegments = js_ceil (js_div dist (minPointDist s))
                         in tween_loop 1 numSegments (js_div dx numSegments)
                              (js_div dy numSegments) point (paintQueue s))
                   else Some (paintQueue s))
             else Some (paintQueue s)
         | None \<Rightarrow> Some (paintQueue s))
      in case tweened of
           None \<Rightarrow> None
         | Some queue \<Rightarrow>
             (let p = (js_round (fst point), js_round (snd point))
              in Some (s\<lparr>lastPoint := Some p, paintQueue := queue @ [p]\<rparr>)))"

section \<open>Viewport scale\<close>

text \<open>
  \<open>onResize\<close>; its argument is the rendered width of the parent element,
  \<open>parentEl.getBoundingClientRect().width\<close>, at the time of the call.
\<close>

definition onResize :: "real \<Rightarrow> state \<Rightarrow> outcome" where
  "onResize renderedWidth s =
     (case overlayCanvas s of
        None \<Rightarrow> Threw TypeError s
      | Some c \<Rightarrow>
          Returned (s\<lparr>scale := js_div (Fin 1) (js_div (Fin renderedWidth) (Fin (real (width c))))\<rparr>))"

section \<open>Reveal detection\<close>

text \<open>
  The scan \<open>for (i = 0; i < pixels.data.length; i += 4)\<close> of \<open>testRevealed\<close>, four bytes
  at a time; the fourth is the alpha. A read past the end of the buffer yields \<open>undefined\<close>,
  which no comparison accepts.
\<close>

fun count_visible :: "8 word list \<Rightarrow> nat \<Rightarrow> nat" where
  "count_visible (r # g # b # a # rest) numVisible =
     count_visible rest (if a \<le> 128 then numVisible + 1 else numVisible)"
| "count_visible _ numVisible = numVisible"

text \<open>
  \<open>testRevealed\<close>. \<open>getImageData\<close> raises \<open>IndexSizeError\<close> for a region without pixels,
  and reading \<open>overlayCanvas.width\<close> or calling \<open>overlayCtx.getImageData\<close> raises
  \<open>TypeError\<close> while the variable is unset.
\<close>

definition testRevealed :: "state \<Rightarrow> outcome" where
  "testRevealed s =
     (case overlayCanvas s of
        None \<Rightarrow> Threw TypeError s
      | Some c \<Rightarrow>
          (let totalPixels = width c * height c
           in if isRevealed s then Returned s
              else if overlayCtx s = None then Threw TypeError s
              else if width c = 0 \<or> height c = 0 then Threw IndexSizeError s
              else
                (let s1 = s\<lparr>trace := trace s @ [GetImageData]\<rparr>;
                     numVisible = count_visible (data c) 0
                 in if js_ge (js_mul (js_div (Fin (real numVisible)) (Fin (real totalPixels)))
                                (Fin 100)) (revealThreshold s)
                    then Returned (s1\<lparr>trace := trace s1 @ [RevealCallback], isRevealed := True\<rparr>)
                    else Returned s1)))"

section \<open>Pointer events\<close>

text \<open>
  The properties of an event that the handlers read. A touch is its
  \<open>(clientX, clientY)\<close>; \<open>targetTouches\<close> and \<open>touches\<close> are \<open>None\<close> where the event has no
  such list; \<open>offset\<close> is \<open>(offsetX, offsetY)\<close> when \<open>typeof event.offsetX\<close> is
  \<open>'number'\<close>; \<open>originalEvent_layerX\<close> says that \<open>event.originalEvent\<close> exists with a
  numeric \<open>layerX\<close>; \<open>rect\<close> is the \<open>(left, top)\<close> of the overlay's bounding rectangle
  when the event is handled. Event coordinates are finite numbers.
\<close>

record event =
  targetTouches :: "(real \<times> real) list option"
  client :: "real \<times> real"
  offset :: "(real \<times> real) option"
  originalEvent_layerX :: bool
  touches :: "(real \<times> real) list option"
  rect :: "real \<times> real"

definition cancelEvent :: "state \<Rightarrow> state" where
  "cancelEvent s = s\<lparr>trace := trace s @ [CancelEvent]\<rparr>"

definition getPointFromEvent :: "event \<Rightarrow> error + real \<times> real" where
  "getPointFromEvent e =
     (case targetTouches e of
        None \<Rightarrow> Inr (client e)
      | Some [] \<Rightarrow> Inl TypeError
      | Some (t # _) \<Rightarrow> Inr t)"

text \<open>
  \<open>getOffsetPointFromEvent\<close>. Its second branch reads \<open>event.oritinalEvent.layerX\<close>, a
  property of \<open>undefined\<close>, and so raises.
\<close>

definition getOffsetPointFromEvent :: "event \<Rightarrow> state \<Rightarrow> error + real \<times> real" where
  "getOffsetPointFromEvent e s =
     (case offset e of
        Some p \<Rightarrow> Inr p
      | None \<Rightarrow>
          if originalEvent_layerX e then Inl TypeError
          else if overlayCanvas s = None then Inl TypeError
          else (case touches e of
                  None \<Rightarrow> Inl TypeError
                | Some [] \<Rightarrow> Inl TypeError
                | Some (t # _) \<Rightarrow> Inr (fst t - fst (rect e), snd t - snd (rect e))))"

definition onPointerDown :: "event \<Rightarrow> state \<Rightarrow> outcome" where
  "onPointerDown e s =
     (let s1 = (cancelEvent s)\<lparr>isPointerDown := True\<rparr>
      in case getPointFromEvent e of
           Inl err \<Rightarrow> Threw err s1
         | Inr po \<Rightarrow>
             (let s2 = s1\<lparr>pointerOrigin := po\<rparr>
              in case getOffsetPointFromEvent e s2 of
                   Inl err \<Rightarrow> Threw err s2
                 | Inr oo \<Rightarrow>
                     (let s3 = s2\<lparr>offsetOrigin := oo\<rparr>
                      in case addPoint (js_mul (Fin (fst oo)) (scale s3),
                                        js_mul (Fin (snd oo)) (scale s3)) False s3 of
                           None \<Rightarrow> Hangs
                         | Some s4 \<Rightarrow> call (downCallback s4) DownCallback s4)))"

definition onPointerMove :: "event \<Rightarrow> state \<Rightarrow> outcome" where
  "onPointerMove e s =
     (if \<not> isPointerDown s then Returned s
      else
        (let s1 = cancelEvent s
         in case getPointFromEvent e of
              Inl err \<Rightarrow> Threw err s1
            | Inr pointerPosition \<Rightarrow>
                (case addPoint
                        (js_mul (Fin (fst (offsetOrigin s1) +
                                       (fst pointerPosition - fst (pointerOrigin s1)))) (scale s1),
                         js_mul (Fin (snd (offsetOrigin s1) +
                                       (snd pointerPosition - snd (pointerOrigin s1)))) (scale s1))
                        True s1 of
                   None \<Rightarrow> Hangs
                 | Some s2 \<Rightarrow> Returned s2)))"

definition onPointerUp :: "event \<Rightarrow> state \<Rightarrow> outcome" where
  "onPointerUp e s =
     (if \<not> isPointerDown s then Returned s
      else
        (let s1 = (cancelEvent s)\<lparr>isPointerDown := False, lastPoint := None,
                    pointerOrigin := (0, 0), offsetOrigin := (0, 0)\<rparr>
         in then_do (call (upCallback s1) UpCallback s1) testRevealed))"

section \<open>Render loop\<close>

text \<open>
  \<open>drawImage\<close> belongs to the platform, not to the engine: it is a parameter of the
  render loop. It is given the blend mode of the destination's context, the source canvas,
  the position and the destination canvas, and yields the destination after the drawing,
  or raises.
\<close>

type_synonym drawImage =
  "composite_op \<Rightarrow> canvas \<Rightarrow> js_number \<Rightarrow> js_number \<Rightarrow> canvas \<Rightarrow> error + canvas"

text \<open>The loop \<open>while (paintQueue.length)\<close> of \<open>draw\<close>, over what is left of the queue.\<close>

fun draw_loop :: "drawImage \<Rightarrow> point list \<Rightarrow> state \<Rightarrow> outcome" where
  "draw_loop di [] s = Returned (s\<lparr>paintQueue := []\<rparr>)"
| "draw_loop di (point # rest) s =
     (case (overlayCtx s, overlayCanvas s, brushCanvas s) of
        (Some gco, Some oc, Some bc) \<Rightarrow>
          (case di gco bc
                  (js_sub (fst point) (js_div (Fin (real (width bc))) (Fin 2)))
                  (js_sub (snd point) (js_div (Fin (real (height bc))) (Fin 2))) oc of
             Inl err \<Rightarrow> Threw err (s\<lparr>paintQueue := rest\<rparr>)
           | Inr oc' \<Rightarrow> draw_loop di rest (s\<lparr>overlayCanvas := Some oc', paintQueue := rest\<rparr>))
      | _ \<Rightarrow> Threw TypeError (s\<lparr>paintQueue := rest\<rparr>))"

definition draw :: "drawImage \<Rightarrow> state \<Rightarrow> outcome" where
  "draw di s =
     then_do (draw_loop di (paintQueue s) s)
       (\<lambda>s'. Returned (s'\<lparr>trace := trace s' @ [RequestAnimationFrame]\<rparr>))"

section \<open>Loading and initialisation\<close>

text \<open>
  What \<open>onCanvasLoaded\<close> reads from the page: whether \<open>window.PointerEvent\<close> exists, and
  the rendered width of the parent element.
\<close>

record env =
  hasPointerEvent :: bool
  parentWidth :: real

definition pointer_listeners :: "effect list" where
  "pointer_listeners =
     [AddEventListener ''overlayCanvas'' ''pointerdown'' ''onPointerDown'',
      AddEventListener ''body'' ''pointerup'' ''onPointerUp'',
      AddEventListener ''body'' ''pointerleave'' ''onPointerUp'',
      AddEventListener ''body'' ''pointermove'' ''onPointerMove'']"

definition mouse_touch_listeners :: "effect list" where
  "mouse_touch_listeners =
     [AddEventListener ''overlayCanvas'' ''mousedown'' ''onPointerDown'',
      AddEventListener ''body'' ''mouseup'' ''onPointerUp'',
      AddEventListener ''body'' ''mouseleave'' ''onPointerUp'',
      AddEventListener ''body'' ''mousemove'' ''onPointerMove'',
      AddEventListener ''overlayCanvas'' ''touchstart'' ''onPointerDown'',
      AddEventListener ''body'' ''touchend'' ''onPointerUp'',
      AddEventListener ''body'' ''touchmove'' ''onPointerMove'']"

definition onCanvasLoaded :: "env \<Rightarrow> state \<Rightarrow> outcome" where
  "onCanvasLoaded ev s =
     (if \<not> (overlayLoaded s \<and> brushLoaded s) then Returned s
      else
        (case (overlayCanvas s, brushCanvas s) of
           (Some oc, Some bc) \<Rightarrow>
             (let s1 = s\<lparr>trace := trace s @ [AppendChild]\<rparr>;
                  s2 = s1\<lparr>overlayCtx := Some DestinationOut\<rparr>;
                  s3 = s2\<lparr>minPointDist := js_div (Fin (real (width bc))) (Fin 2)\<rparr>;
                  s4 = s3\<lparr>trace := trace s3 @
                         (if hasPointerEvent ev then pointer_listeners else mouse_touch_listeners) @
                         [AddEventListener ''window'' ''resize'' ''debounce(onResize, 200)'']\<rparr>
              in then_do (onResize (parentWidth ev) s4)
                   (\<lambda>s5. let s6 = s5\<lparr>trace := trace s5 @ [RequestAnimationFrame]\<rparr>
                         in call (loadedCallback s6) LoadedCallback s6))
         | _ \<Rightarrow> Returned (s\<lparr>trace := trace s @ [ConsoleError]\<rparr>)))"

text \<open>
  The two callbacks that \<open>construct\<close> hands to \<open>getCanvasFromImage\<close>. Each is called once,
  when its load has settled: with the canvas, or with \<open>false\<close> (here \<open>None\<close>).
\<close>

definition overlay_callback :: "canvas option \<Rightarrow> env \<Rightarrow> state \<Rightarrow> outcome" where
  "overlay_callback canvas ev s = onCanvasLoaded ev (s\<lparr>overlayLoaded := True, overlayCanvas := canvas\<rparr>)"

definition brush_callback :: "canvas option \<Rightarrow> env \<Rightarrow> state \<Rightarrow> outcome" where
  "brush_callback canvas ev s = onCanvasLoaded ev (s\<lparr>brushLoaded := True, brushCanvas := canvas\<rparr>)"

text \<open>
  \<open>construct\<close>. Its arguments: whether \<open>el\<close> passes \<open>isDomElement\<close>, whether each URL is a
  string, and the arguments after the third. A URL that is no string makes
  \<open>getCanvasFromImage\<close> call back with \<open>false\<close> at once; the other loads settle later.
  Until it is assigned, \<open>revealThreshold\<close> is \<open>undefined\<close>, shown here as \<open>NaN\<close>, which
  it becomes in every comparison.
\<close>

record arguments =
  el_isDomElement :: bool
  overlayUrl_isString :: bool
  brushUrl_isString :: bool
  optional :: "js_value list"

definition construct :: "arguments \<Rightarrow> env \<Rightarrow> outcome" where
  "construct args ev =
     (let callback = (if length (optional args) > 0 then optional args ! 0 else JSFunction);
          threshold = Math_max (Fin 0) (Math_min (Fin 100)
                        (if length (optional args) > 1 then times_one (optional args ! 1) else Fin 0));
          s0 = \<lparr>overlayCanvas = None, overlayCtx = None, brushCanvas = None,
                overlayLoaded = False, brushLoaded = False, isPointerDown = False,
                pointerOrigin = (0, 0), offsetOrigin = (0, 0), scale = Fin 1,
                paintQueue = [], lastPoint = None, minPointDist = Fin 10,
                isRevealed = False, revealThreshold = NaN,
                loadedCallback = (if length (optional args) > 2 then optional args ! 2 else JSFunction),
                downCallback = (if length (optional args) > 3 then optional args ! 3 else JSFunction),
                upCallback = (if length (optional args) > 4 then optional args ! 4 else JSFunction),
                trace = []\<rparr>
      in if \<not> el_isDomElement args
         then Threw (Thrown ''ScratchIt() requires parent element to be a valid DOM Element.'') s0
         else if callback \<noteq> JSFunction
         then Threw (Thrown ''ScratchIt() requires callback to be a function'') s0
         else
           (let s1 = s0\<lparr>revealThreshold := threshold\<rparr>
            in then_do (if overlayUrl_isString args then Returned s1 else overlay_callback None ev s1)
                 (\<lambda>s2. if brushUrl_isString args then Returned s2 else brush_callback None ev s2)))"

section \<open>The engine as a transition system\<close>

text \<open>
  What can happen to an engine once it is initialised: the three pointer handlers, a
  (debounced) resize with the parent's rendered width, and a frame of the render loop.
\<close>

datatype op = PointerDown event | PointerMove event | PointerUp event | Resize real | Frame

fun step :: "drawImage \<Rightarrow> op \<Rightarrow> state \<Rightarrow> outcome" where
  "step di (PointerDown e) s = onPointerDown e s"
| "step di (PointerMove e) s = onPointerMove e s"
| "step di (PointerUp e) s = onPointerUp e s"
| "step di (Resize w) s = onResize w s"
| "step di Frame s = draw di s"

text \<open>
  A sequence of them. A handler that throws leaves the engine in the state it had reached,
  and the next event finds it there; after one that never returns there is no next event.
\<close>

fun final :: "outcome \<Rightarrow> state option" where
  "final (Returned s) = Some s"
| "final (Threw err s) = Some s"
| "final Hangs = None"

fun run :: "drawImage \<Rightarrow> op list \<Rightarrow> state \<Rightarrow> state option" where
  "run di [] s = Some s"
| "run di (a # ops) s =
     (case final (step di a s) of
        Some s' \<Rightarrow> run di ops s'
      | None \<Rightarrow> None)"

section \<open>Notions for stating the properties\<close>


definition distance :: "real \<times> real \<Rightarrow> real \<times> real \<Rightarrow> real" where
  "distance a b = sqrt ((fst a - fst b) * (fst a - fst b) + (snd a - snd b) * (snd a - snd b))"




text \<open>
  The two loads settling one after the other, in either order, and the state of an engine
  that \<open>onCanvasLoaded\<close> has built from \<open>s\<close> and the two canvases.
\<close>

definition load_both ::
  "bool \<Rightarrow> canvas option \<Rightarrow> canvas option \<Rightarrow> env \<Rightarrow> state \<Rightarrow> outcome" where
  "load_both overlay_first oc bc ev s =
     (if overlay_first
      then then_do (overlay_callback oc ev s) (brush_callback bc ev)
      else then_do (brush_callback bc ev s) (overlay_callback oc ev))"

definition initialised :: "env \<Rightarrow> canvas \<Rightarrow> canvas \<Rightarrow> state \<Rightarrow> state" where
  "initialised ev oc bc s =
     s\<lparr>overlayLoaded := True, brushLoaded := True,
        overlayCanvas := Some oc, brushCanvas := Some bc,
        overlayCtx := Some DestinationOut,
        minPointDist := js_div (Fin (real (width bc))) (Fin 2),
        scale := js_div (Fin 1) (js_div (Fin (parentWidth ev)) (Fin (real (width oc)))),
        trace := trace s @ [AppendChild] @
          (if hasPointerEvent ev then pointer_listeners else mouse_touch_listeners) @
          [AddEventListener ''window'' ''resize'' ''debounce(onResize, 200)'',
           RequestAnimationFrame, LoadedCallback]\<rparr>"

text \<open>
  The alpha of each pixel of a buffer, the number of pixels of a canvas whose alpha is at
  most 128, and the revealed fraction in the specification's words.
\<close>

fun alphas :: "8 word list \<Rightarrow> 8 word list" where
  "alphas (r # g # b # a # rest) = a # alphas rest"
| "alphas _ = []"

definition revealedPixelCount :: "canvas \<Rightarrow> nat" where
  "revealedPixelCount c = length (filter (\<lambda>a. a \<le> 128) (alphas (data c)))"

definition revealedFraction :: "canvas \<Rightarrow> real" where
  "revealedFraction c = real (revealedPixelCount c) / real (width c * height c) * 100"

text \<open>
  The two ways a first-time reveal test can end: the completion callback is called and the
  flag set, or nothing but the pixel read has happened.
\<close>

definition fires :: "state \<Rightarrow> outcome" where
  "fires s = Returned (s\<lparr>trace := trace s @ [GetImageData, RevealCallback], isRevealed := True\<rparr>)"

definition stays :: "state \<Rightarrow> outcome" where
  "stays s = Returned (s\<lparr>trace := trace s @ [GetImageData]\<rparr>)"

text \<open>How often the completion callback has been called.\<close>

definition reveal_count :: "state \<Rightarrow> nat" where
  "reveal_count s = count_list (trace s) RevealCallback"

text \<open>
  Two relations between an engine and a later one. \<open>quiet\<close>: the revealed flag and the
  number of completion calls are as before. \<open>once\<close>: a revealed engine is still revealed
  with no further call, and an engine not revealed has either stayed so with no call, or
  become revealed with one call.
\<close>

definition quiet :: "state \<Rightarrow> state \<Rightarrow> bool" where
  "quiet s s' \<longleftrightarrow> isRevealed s' = isRevealed s \<and> reveal_count s' = reveal_count s"


text \<open>What initialisation and construction have set, and no later operation changes.\<close>

definition configured :: "state \<Rightarrow> state \<Rightarrow> bool" where
  "configured s s' \<longleftrightarrow>
     minPointDist s' = minPointDist s \<and> brushCanvas s' = brushCanvas s \<and>
     revealThreshold s' = revealThreshold s"

text \<open>
  Erasure. \<open>faded c c'\<close>: the canvas \<open>c'\<close> has the dimensions of \<open>c\<close> and no pixel of it has
  a higher alpha. \<open>erasing\<close> is what the engine relies on from the platform: a
  \<open>drawImage\<close> under the blend mode \<open>destination-out\<close> fades its destination.
  \<open>untouched\<close> and \<open>erased\<close> relate an engine to a later one whose overlay and drawing
  context are the same, or whose context is the same and whose overlay has faded.
\<close>

definition faded :: "canvas \<Rightarrow> canvas \<Rightarrow> bool" where
  "faded c c' \<longleftrightarrow>
     width c' = width c \<and> height c' = height c \<and>
     list_all2 (\<lambda>a' a. a' \<le> a) (alphas (data c')) (alphas (data c))"

definition erasing :: "drawImage \<Rightarrow> bool" where
  "erasing di \<longleftrightarrow> (\<forall>src x y dst dst'. di DestinationOut src x y dst = Inr dst' \<longrightarrow> faded dst dst')"

definition untouched :: "state \<Rightarrow> state \<Rightarrow> bool" where
  "untouched s s' \<longleftrightarrow> overlayCanvas s' = overlayCanvas s \<and> overlayCtx s' = overlayCtx s"

definition erased :: "state \<Rightarrow> state \<Rightarrow> bool" where
  "erased s s' \<longleftrightarrow>
     overlayCtx s' = overlayCtx s \<and>
     (case overlayCanvas s of
        None \<Rightarrow> overlayCanvas s' = None
      | Some c \<Rightarrow> (\<exists>c'. overlayCanvas s' = Some c' \<and> faded c c'))"

text \<open>
  A \<open>drawImage\<close> to run the render loop with, after the compositing rules of Porter and
  Duff on 8-bit alpha: the alpha that remains under \<open>destination-out\<close> is
  \<open>dst * (255 - src) / 255\<close>, and under \<open>source-over\<close> it is \<open>src + dst * (255 - src) / 255\<close>.
  The source is placed at the integer position below the given one and is transparent
  outside its bounds; colour is left as it is; a source without pixels raises, and a
  position that is not finite draws nothing.
\<close>

definition blend_alpha :: "composite_op \<Rightarrow> 8 word \<Rightarrow> 8 word \<Rightarrow> 8 word" where
  "blend_alpha gco src dst =
     (case gco of
        DestinationOut \<Rightarrow> of_nat (unat dst * (255 - unat src) div 255)
      | SourceOver \<Rightarrow> of_nat (unat src + unat dst * (255 - unat src) div 255))"

definition source_alpha :: "canvas \<Rightarrow> int \<Rightarrow> int \<Rightarrow> nat \<Rightarrow> nat \<Rightarrow> 8 word" where
  "source_alpha src ox oy px py =
     (let sx = int px - ox; sy = int py - oy
      in if 0 \<le> sx \<and> sx < int (width src) \<and> 0 \<le> sy \<and> sy < int (height src)
         then alphas (data src) ! (nat sy * width src + nat sx)
         else 0)"

fun stamp_data ::
  "composite_op \<Rightarrow> canvas \<Rightarrow> int \<Rightarrow> int \<Rightarrow> nat \<Rightarrow> nat \<Rightarrow> 8 word list \<Rightarrow> 8 word list" where
  "stamp_data gco src ox oy w i (r # g # b # a # rest) =
     r # g # b # blend_alpha gco (source_alpha src ox oy (i mod w) (i div w)) a #
     stamp_data gco src ox oy w (i + 1) rest"
| "stamp_data gco src ox oy w i rest = rest"

definition stamp :: drawImage where
  "stamp gco src x y dst =
     (if width src = 0 \<or> height src = 0 \<or> length (data src) \<noteq> 4 * (width src * height src)
      then Inl InvalidStateError
      else case (x, y) of
             (Fin fx, Fin fy) \<Rightarrow>
               Inr (dst\<lparr>data := stamp_data gco src \<lfloor>fx\<rfloor> \<lfloor>fy\<rfloor> (width dst) 0 (data dst)\<rparr>)
           | _ \<Rightarrow> Inr dst)"

text \<open>
  An example: a page with pointer events whose container is 200 pixels wide, an opaque
  overlay of 200 by 100 pixels, an opaque brush of 20 by 20, a threshold of 50 percent and
  all callbacks given. \<open>fresh_ex\<close> is the engine as constructed, \<open>ready_ex\<close> the engine once
  both images have loaded, and \<open>stroke_ex\<close> the engine after the pointer went down at the
  overlay's top left corner.
\<close>

definition page_ex :: env where
  "page_ex = \<lparr>hasPointerEvent = True, parentWidth = 200\<rparr>"

definition overlay_ex :: canvas where
  "overlay_ex = \<lparr>width = 200, height = 100, data = replicate (4 * 20000) 255\<rparr>"

definition brush_ex :: canvas where
  "brush_ex = \<lparr>width = 20, height = 20, data = replicate (4 * 400) 255\<rparr>"

definition args_ex :: arguments where
  "args_ex =
     \<lparr>el_isDomElement = True, overlayUrl_isString = True, brushUrl_isString = True,
      optional = [JSFunction, JSNumber (Fin 50), JSFunction, JSFunction, JSFunction]\<rparr>"

definition fresh_ex :: state where
  "fresh_ex =
     \<lparr>overlayCanvas = None, overlayCtx = None, brushCanvas = None,
      overlayLoaded = False, brushLoaded = False, isPointerDown = False,
      pointerOrigin = (0, 0), offsetOrigin = (0, 0), scale = Fin 1,
      paintQueue = [], lastPoint = None, minPointDist = Fin 10,
      isRevealed = False, revealThreshold = Fin 50,
      loadedCallback = JSFunction, downCallback = JSFunction, upCallback = JSFunction,
      trace = []\<rparr>"

definition ready_ex :: state where
  "ready_ex = initialised page_ex overlay_ex brush_ex fresh_ex"

definition mouse_ex :: "real \<times> real \<Rightarrow> real \<times> real \<Rightarrow> event" where
  "mouse_ex c off =
     \<lparr>targetTouches = None, client = c, offset = Some off, originalEvent_layerX = False,
      touches = None, rect = (0, 0)\<rparr>"

definition stroke_ex :: state where
  "stroke_ex =
     ready_ex\<lparr>isPointerDown := True, pointerOrigin := (50, 60), offsetOrigin := (0, 0),
       paintQueue := [(Fin 0, Fin 0)], lastPoint := Some (Fin 0, Fin 0),
       trace := trace ready_ex @ [CancelEvent, DownCallback]\<rparr>"

text \<open>
  A second example, small enough to follow every pixel: an opaque overlay of 2 by 2 pixels
  in a container 2 pixels wide, and a brush of 2 by 2 whose lower left pixel is
  transparent. The pointer goes down in the middle of the overlay (\<open>tiny_down\<close>), a frame
  is drawn (\<open>tiny_drawn\<close>), the pointer is released (\<open>tiny_done\<close>), and it goes down
  and is released once more (\<open>tiny_again\<close>).
\<close>

definition tiny_page :: env where
  "tiny_page = \<lparr>hasPointerEvent = False, parentWidth = 2\<rparr>"

definition tiny_overlay :: canvas where
  "tiny_overlay =
     \<lparr>width = 2, height = 2,
      data = [0, 0, 0, 255,  0, 0, 0, 255,  0, 0, 0, 255,  0, 0, 0, 255]\<rparr>"

definition tiny_brush :: canvas where
  "tiny_brush =
     \<lparr>width = 2, height = 2,
      data = [0, 0, 0, 255,  0, 0, 0, 255,  0, 0, 0, 0,  0, 0, 0, 255]\<rparr>"

definition tiny_ex :: state where
  "tiny_ex = initialised tiny_page tiny_overlay tiny_brush fresh_ex"

definition tiny_down :: state where
  "tiny_down =
     tiny_ex\<lparr>isPointerDown := True, pointerOrigin := (11, 11), offsetOrigin := (1, 1),
       paintQueue := [(Fin 1, Fin 1)], lastPoint := Some (Fin 1, Fin 1),
       trace := trace tiny_ex @ [CancelEvent, DownCallback]\<rparr>"

definition tiny_erased :: canvas where
  "tiny_erased = tiny_overlay\<lparr>data := [0, 0, 0, 0,  0, 0, 0, 0,  0, 0, 0, 255,  0, 0, 0, 0]\<rparr>"

definition tiny_drawn :: state where
  "tiny_drawn =
     tiny_down\<lparr>overlayCanvas := Some tiny_erased, paintQueue := [],
       trace := trace tiny_down @ [RequestAnimationFrame]\<rparr>"

definition tiny_done :: state where
  "tiny_done =
     tiny_drawn\<lparr>isPointerDown := False, lastPoint := None, pointerOrigin := (0, 0),
       offsetOrigin := (0, 0), isRevealed := True,
       trace := trace tiny_drawn @ [CancelEvent, UpCallback, GetImageData, RevealCallback]\<rparr>"


section \<open>The example engine\<close>

lemma fresh_ex_constructed: "construct args_ex page_ex = Returned fresh_ex"
  by (simp add: construct_def args_ex_def fresh_ex_def then_do_def Math_max_def Math_min_def Let_def)

lemma ready_ex_fields:
  "overlayCanvas ready_ex = Some overlay_ex" "brushCanvas ready_ex = Some brush_ex"
  "overlayCtx ready_ex = Some DestinationOut" "minPointDist ready_ex = Fin 10"
  "scale ready_ex = Fin 1" "isPointerDown ready_ex = False" "isRevealed ready_ex = False"
  "revealThreshold ready_ex = Fin 50" "paintQueue ready_ex = []" "lastPoint ready_ex = None"
  "downCallback ready_ex = JSFunction" "upCallback ready_ex = JSFunction"
  by (simp_all add: ready_ex_def initialised_def fresh_ex_def page_ex_def overlay_ex_def
      brush_ex_def)

lemma stroke_ex_fields:
  "overlayCanvas stroke_ex = Some overlay_ex" "brushCanvas stroke_ex = Some brush_ex"
  "overlayCtx stroke_ex = Some DestinationOut" "minPointDist stroke_ex = Fin 10"
  "scale stroke_ex = Fin 1" "isPointerDown stroke_ex = True" "isRevealed stroke_ex = False"
  "revealThreshold stroke_ex = Fin 50" "paintQueue stroke_ex = [(Fin 0, Fin 0)]"
  "lastPoint stroke_ex = Some (Fin 0, Fin 0)"
  "downCallback stroke_ex = JSFunction" "upCallback stroke_ex = JSFunction"
  by (simp_all add: stroke_ex_def ready_ex_fields)

lemma stroke_ex_reached:
  "onPointerDown (mouse_ex (50, 60) (0, 0)) ready_ex = Returned stroke_ex"
  by (simp add: onPointerDown_def cancelEvent_def getPointFromEvent_def
      getOffsetPointFromEvent_def mouse_ex_def addPoint_def call_def ready_ex_fields
      stroke_ex_def Let_def)

text \<open>The small example, step by step.\<close>

lemma tiny_ex_fields:
  "overlayCanvas tiny_ex = Some tiny_overlay" "brushCanvas tiny_ex = Some tiny_brush"
  "overlayCtx tiny_ex = Some DestinationOut" "minPointDist tiny_ex = Fin 1"
  "scale tiny_ex = Fin 1" "isPointerDown tiny_ex = False" "isRevealed tiny_ex = False"
  "revealThreshold tiny_ex = Fin 50" "paintQueue tiny_ex = []" "lastPoint tiny_ex = None"
  "downCallback tiny_ex = JSFunction" "upCallback tiny_ex = JSFunction"
  by (simp_all add: tiny_ex_def initialised_def fresh_ex_def tiny_page_def tiny_overlay_def
      tiny_brush_def)

lemma tiny_step_down: "onPointerDown (mouse_ex (11, 11) (1, 1)) tiny_ex = Returned tiny_down"
proof -
  have fl: "\<lfloor>3 / 2 :: real\<rfloor> = 1" by linarith
  show ?thesis
    by (simp add: onPointerDown_def cancelEvent_def getPointFromEvent_def
        getOffsetPointFromEvent_def mouse_ex_def addPoint_def call_def tiny_ex_fields
        tiny_down_def fl Let_def)
qed

lemma tiny_brush_size: "width tiny_brush = 2" "height tiny_brush = 2"
  by (simp_all add: tiny_brush_def)

lemma tiny_stamp:
  "stamp DestinationOut tiny_brush (Fin 0) (Fin 0) tiny_overlay = Inr tiny_erased"
  by (simp add: stamp_def tiny_brush_def tiny_overlay_def tiny_erased_def source_alpha_def
      blend_alpha_def Let_def)

lemma tiny_step_frame: "draw stamp tiny_down = Returned tiny_drawn"
  by (simp add: draw_def then_do_def tiny_down_def tiny_ex_fields js_sub_def tiny_stamp
      tiny_drawn_def tiny_brush_size)

section \<open>Stroke interpolation: the points queued by \<open>addPoint\<close>\<close>




lemma addPoint_untweened:
  "addPoint p False s =
     Some (s\<lparr>lastPoint := Some (js_round (fst p), js_round (snd p)),
             paintQueue := paintQueue s @ [(js_round (fst p), js_round (snd p))]\<rparr>)"
  by (simp add: addPoint_def Let_def split: option.split)


text \<open>
  With a spacing of zero, from a brush of width 0, and a new point apart from the previous
  one, the segment count is infinite and the loop of \<open>addPoint\<close> never ends.
\<close>

lemma tween_loop_returns:
  "tween_loop i n dx dy p q = Some y \<Longrightarrow> n \<noteq> PosInf"
  by (rule tween_loop.raw_induct [where P = "\<lambda>i n dx dy p q y. n \<noteq> PosInf"])
    (auto split: if_splits)

lemma tween_loop_infinite: "tween_loop i PosInf dx dy p q = None"
  using tween_loop_returns [of i PosInf dx dy p q] by (cases "tween_loop i PosInf dx dy p q") auto

lemma addPoint_zero_spacing:
  assumes lp: "lastPoint s = Some (Fin lx, Fin ly)"
    and m: "minPointDist s = Fin 0"
    and apart: "0 < distance (lx, ly) (x, y)"
  shows "addPoint (Fin x, Fin y) True s = None"
proof -
  have dist: "js_sqrt (js_add (js_mul (js_sub (Fin lx) (Fin x)) (js_sub (Fin lx) (Fin x)))
                (js_mul (js_sub (Fin ly) (Fin y)) (js_sub (Fin ly) (Fin y)))) =
              Fin (distance (lx, ly) (x, y))"
    by (simp add: js_sub_def distance_def not_less)
  have seg: "js_ceil (js_div (Fin (distance (lx, ly) (x, y))) (Fin 0)) = PosInf"
    using apart by (simp add: js_inf_def)
  have gt: "js_gt (Fin (distance (lx, ly) (x, y))) (Fin 0)"
    using apart by (simp add: js_gt_def)
  show ?thesis
    by (simp only: addPoint_def lp m fst_conv snd_conv Let_def option.case dist gt seg if_True
        tween_loop_infinite)
qed











section \<open>Viewport scale: what \<open>onResize\<close> stores\<close>



section \<open>The reveal threshold\<close>

lemma Math_clamp_range:
  assumes "t \<noteq> NaN"
  shows "\<exists>r. Math_max (Fin 0) (Math_min (Fin 100) t) = Fin r \<and> 0 \<le> r \<and> r \<le> 100"
  using assms by (cases t) (auto simp: Math_max_def Math_min_def)

text \<open>Whatever converts to a Number other than \<open>NaN\<close> is stored clamped to 0 ... 100.\<close>

lemma construct_threshold_clamped:
  assumes "el_isDomElement args" "overlayUrl_isString args" "brushUrl_isString args"
    and "optional args = JSFunction # v # rest" "times_one v \<noteq> NaN"
  shows "\<exists>s r. construct args ev = Returned s \<and> revealThreshold s = Fin r \<and> 0 \<le> r \<and> r \<le> 100"
proof -
  obtain r where "Math_max (Fin 0) (Math_min (Fin 100) (times_one v)) = Fin r" "0 \<le> r" "r \<le> 100"
    using Math_clamp_range [OF assms(5)] by blast
  then show ?thesis using assms(1-4) by (simp add: construct_def then_do_def Let_def)
qed

text \<open>
  Claim C5 at the threshold argument \<open>undefined\<close>: the engine stores \<open>NaN\<close>, which lies in
  no interval, and which no revealed fraction reaches, not even 100.
\<close>

theorem construct_threshold_undefined:
  "construct (args_ex\<lparr>optional := [JSFunction, JSUndefined]\<rparr>) page_ex =
     Returned (fresh_ex\<lparr>revealThreshold := NaN\<rparr>) \<and>
   \<not> js_ge (Fin 100) (revealThreshold (fresh_ex\<lparr>revealThreshold := NaN\<rparr>))"
  by (simp add: construct_def args_ex_def fresh_ex_def then_do_def Math_max_def Math_min_def
      js_ge_def Let_def)

section \<open>Readiness\<close>



text \<open>
  A ready callback that is no function is still called, last of all, and that call raises.
\<close>

lemma both_loaded_not_callable:
  assumes "\<not> overlayLoaded s" "\<not> brushLoaded s" "loadedCallback s \<noteq> JSFunction"
  shows "load_both first (Some oc) (Some bc) ev s =
           Threw TypeError
             ((initialised ev oc bc s)\<lparr>trace := trace s @ [AppendChild] @
                (if hasPointerEvent ev then pointer_listeners else mouse_touch_listeners) @
                [AddEventListener ''window'' ''resize'' ''debounce(onResize, 200)'',
                 RequestAnimationFrame]\<rparr>)"
  using assms
  by (cases first)
    (simp_all add: load_both_def overlay_callback_def brush_callback_def onCanvasLoaded_def
      then_do_def onResize_def call_def initialised_def Let_def)





section \<open>Pointer press\<close>

text \<open>
  Claim C10. A pointer-down during a stroke, from an event that yields both points and
  with a stroke-start hook that is a function, returns with both origins taken from the
  new event, one more point queued, which is the scaled and rounded offset and is not
  tweened from the last point, and the stroke-start hook called after the cancelled
  event; no stroke-end hook, pixel read or completion callback is among its effects.
\<close>

theorem onPointerDown_while_stroking:
  assumes "isPointerDown s"
    and "getPointFromEvent e = Inr po"
    and "getOffsetPointFromEvent e s = Inr oo"
    and "downCallback s = JSFunction"
  shows "onPointerDown e s =
     Returned (s\<lparr>pointerOrigin := po, offsetOrigin := oo,
                 lastPoint := Some (js_round (js_mul (Fin (fst oo)) (scale s)),
                                    js_round (js_mul (Fin (snd oo)) (scale s))),
                 paintQueue := paintQueue s @ [(js_round (js_mul (Fin (fst oo)) (scale s)),
                                                js_round (js_mul (Fin (snd oo)) (scale s)))],
                 trace := trace s @ [CancelEvent, DownCallback]\<rparr>)"
proof -
  have "getOffsetPointFromEvent e
               (s\<lparr>trace := trace s @ [CancelEvent], isPointerDown := True, pointerOrigin := po\<rparr>) =
        getOffsetPointFromEvent e s"
    by (cases "overlayCanvas s") (simp_all add: getOffsetPointFromEvent_def)
  then have off: "getOffsetPointFromEvent e
               (s\<lparr>trace := trace s @ [CancelEvent], isPointerDown := True, pointerOrigin := po\<rparr>) = Inr oo"
    using assms(3) by simp
  show ?thesis
    using assms(1,2,4) off
    by (simp add: onPointerDown_def cancelEvent_def addPoint_untweened call_def Let_def)
qed

text \<open>Claim C10 on the example: a second press 90 pixels to the right of the first.\<close>

theorem onPointerDown_while_stroking_witness:
  "isPointerDown stroke_ex \<and>
   getPointFromEvent (mouse_ex (140, 60) (90, 0)) = Inr (140, 60) \<and>
   getOffsetPointFromEvent (mouse_ex (140, 60) (90, 0)) stroke_ex = Inr (90, 0) \<and>
   downCallback stroke_ex = JSFunction \<and>
   onPointerDown (mouse_ex (140, 60) (90, 0)) stroke_ex =
     Returned (stroke_ex\<lparr>pointerOrigin := (140, 60), offsetOrigin := (90, 0),
                 lastPoint := Some (Fin 90, Fin 0),
                 paintQueue := [(Fin 0, Fin 0), (Fin 90, Fin 0)],
                 trace := trace stroke_ex @ [CancelEvent, DownCallback]\<rparr>)"
proof -
  have p: "getPointFromEvent (mouse_ex (140, 60) (90, 0)) = Inr (140, 60)"
    by (simp add: getPointFromEvent_def mouse_ex_def)
  have q: "getOffsetPointFromEvent (mouse_ex (140, 60) (90, 0)) stroke_ex = Inr (90, 0)"
    by (simp add: getOffsetPointFromEvent_def mouse_ex_def)
  have fl: "\<lfloor>181 / 2 :: real\<rfloor> = 90" "\<lfloor>1 / 2 :: real\<rfloor> = 0" by linarith+
  show ?thesis
    using onPointerDown_while_stroking [OF _ p q]
    by (simp add: p q stroke_ex_fields fl)
qed

section \<open>Reveal detection: the threshold test\<close>

text \<open>A release during a stroke is a reveal test on the idle engine.\<close>

lemma onPointerUp_stroking:
  assumes "isPointerDown s" "upCallback s = JSFunction"
  shows "onPointerUp e s =
        testRevealed (s\<lparr>isPointerDown := False, lastPoint := None, pointerOrigin := (0, 0),
                         offsetOrigin := (0, 0), trace := trace s @ [CancelEvent, UpCallback]\<rparr>)"
  using assms by (simp add: onPointerUp_def cancelEvent_def call_def then_do_def Let_def)



lemma count_visible_alphas:
  "count_visible ds k = k + length (filter (\<lambda>a. a \<le> 128) (alphas ds))"
  by (induction ds k rule: count_visible.induct) simp_all

lemma alphas_replicate: "alphas (replicate (4 * n) a) = replicate n a"
proof (induction n)
  case 0
  show ?case by simp
next
  case (Suc n)
  have "replicate (4 * Suc n) a = a # a # a # a # replicate (4 * n) a"
    by (simp add: numeral_eq_Suc)
  then show ?case using Suc by simp
qed

lemma testRevealed_first:
  assumes c: "overlayCanvas s = Some c" and ctx: "overlayCtx s \<noteq> None"
    and fresh: "\<not> isRevealed s" and pos: "0 < width c" "0 < height c"
  shows "testRevealed s =
           (if js_ge (Fin (revealedFraction c)) (revealThreshold s) then fires s else stays s)"
  using ctx fresh pos
  by (simp add: testRevealed_def c count_visible_alphas revealedFraction_def revealedPixelCount_def
      fires_def stays_def Let_def)









section \<open>Pointer release\<close>

text \<open>
  Claim C7. A pointer-up outside a stroke changes nothing. During a stroke, with a
  stroke-end hook that is a function, it is the reveal test run once on the engine that
  is idle again, has forgotten the last point and has called the hook; so on a loaded
  overlay the effects are, in this order, the cancelled event, the hook, and what the
  reveal test does: nothing when already revealed, else the pixel read and perhaps the
  completion callback.
\<close>

theorem onPointerUp_behaviour:
  "(\<not> isPointerDown s \<longrightarrow> onPointerUp e s = Returned s) \<and>
   (isPointerDown s \<and> upCallback s = JSFunction \<longrightarrow>
      onPointerUp e s =
        testRevealed (s\<lparr>isPointerDown := False, lastPoint := None, pointerOrigin := (0, 0),
                         offsetOrigin := (0, 0), trace := trace s @ [CancelEvent, UpCallback]\<rparr>)) \<and>
   (isPointerDown s \<and> upCallback s = JSFunction \<and> overlayCanvas s = Some c \<and>
    overlayCtx s \<noteq> None \<and> 0 < width c \<and> 0 < height c \<longrightarrow>
      (\<exists>s'. onPointerUp e s = Returned s' \<and> \<not> isPointerDown s' \<and> lastPoint s' = None \<and>
            paintQueue s' = paintQueue s \<and>
            (trace s' = trace s @ [CancelEvent, UpCallback] \<and> isRevealed s \<or>
             trace s' = trace s @ [CancelEvent, UpCallback, GetImageData] \<and> \<not> isRevealed s \<or>
             trace s' = trace s @ [CancelEvent, UpCallback, GetImageData, RevealCallback] \<and>
               \<not> isRevealed s)))"
proof (intro conjI impI)
  assume "\<not> isPointerDown s"
  then show "onPointerUp e s = Returned s" by (simp add: onPointerUp_def)
next
  assume "isPointerDown s \<and> upCallback s = JSFunction"
  then show "onPointerUp e s =
        testRevealed (s\<lparr>isPointerDown := False, lastPoint := None, pointerOrigin := (0, 0),
                         offsetOrigin := (0, 0), trace := trace s @ [CancelEvent, UpCallback]\<rparr>)"
    by (simp add: onPointerUp_stroking)
next
  let ?mid = "s\<lparr>isPointerDown := False, lastPoint := None, pointerOrigin := (0, 0),
                offsetOrigin := (0, 0), trace := trace s @ [CancelEvent, UpCallback]\<rparr>"
  assume a: "isPointerDown s \<and> upCallback s = JSFunction \<and> overlayCanvas s = Some c \<and>
    overlayCtx s \<noteq> None \<and> 0 < width c \<and> 0 < height c"
  then have up: "onPointerUp e s = testRevealed ?mid" by (simp add: onPointerUp_stroking)
  show "\<exists>s'. onPointerUp e s = Returned s' \<and> \<not> isPointerDown s' \<and> lastPoint s' = None \<and>
            paintQueue s' = paintQueue s \<and>
            (trace s' = trace s @ [CancelEvent, UpCallback] \<and> isRevealed s \<or>
             trace s' = trace s @ [CancelEvent, UpCallback, GetImageData] \<and> \<not> isRevealed s \<or>
             trace s' = trace s @ [CancelEvent, UpCallback, GetImageData, RevealCallback] \<and>
               \<not> isRevealed s)"
  proof (cases "isRevealed s")
    case True
    then have "testRevealed ?mid = Returned ?mid" using a by (simp add: testRevealed_def)
    then show ?thesis using up True by simp
  next
    case False
    have "testRevealed ?mid =
            (if js_ge (Fin (revealedFraction c)) (revealThreshold ?mid) then fires ?mid else stays ?mid)"
      by (rule testRevealed_first) (use a False in simp_all)
    then show ?thesis using up False by (simp add: fires_def stays_def)
  qed
qed

section \<open>What a frame of the render loop changes\<close>

lemma draw_loop_frame:
  "final (draw_loop di q s) = Some s' \<Longrightarrow> \<exists>oc q'. s' = s\<lparr>overlayCanvas := oc, paintQueue := q'\<rparr>"
proof (induction q arbitrary: s)
  case Nil
  then have "s' = s\<lparr>overlayCanvas := overlayCanvas s, paintQueue := []\<rparr>" by simp
  then show ?case by blast
next
  case (Cons point rest)
  have thrown: ?case if "draw_loop di (point # rest) s = Threw err (s\<lparr>paintQueue := rest\<rparr>)" for err
  proof -
    have "s' = s\<lparr>overlayCanvas := overlayCanvas s, paintQueue := rest\<rparr>"
      using that Cons.prems by simp
    then show ?thesis by blast
  qed
  show ?case
  proof (cases "overlayCtx s")
    case None
    then show ?thesis by (intro thrown [of TypeError]) simp
  next
    case ctx: (Some gco)
    show ?thesis
    proof (cases "overlayCanvas s")
      case None
      then show ?thesis using ctx by (intro thrown [of TypeError]) simp
    next
      case oc: (Some c)
      show ?thesis
      proof (cases "brushCanvas s")
        case None
        then show ?thesis using ctx oc by (intro thrown [of TypeError]) simp
      next
        case bc: (Some b)
        show ?thesis
        proof (cases "di gco b (js_sub (fst point) (js_div (Fin (real (width b))) (Fin 2)))
                        (js_sub (snd point) (js_div (Fin (real (height b))) (Fin 2))) c")
          case (Inl err)
          then show ?thesis using ctx oc bc by (intro thrown [of err]) simp
        next
          case (Inr c')
          let ?t = "s\<lparr>overlayCanvas := Some c', paintQueue := rest\<rparr>"
          have "final (draw_loop di rest ?t) = Some s'"
            using Cons.prems ctx oc bc Inr by simp
          then obtain oc' q' where "s' = ?t\<lparr>overlayCanvas := oc', paintQueue := q'\<rparr>"
            using Cons.IH by blast
          then have "s' = s\<lparr>overlayCanvas := oc', paintQueue := q'\<rparr>" by simp
          then show ?thesis by blast
        qed
      qed
    qed
  qed
qed

lemma draw_frame:
  assumes "final (draw di s) = Some s'"
  shows "\<exists>oc q' tr. s' = s\<lparr>overlayCanvas := oc, paintQueue := q', trace := tr\<rparr> \<and>
           (tr = trace s \<or> tr = trace s @ [RequestAnimationFrame])"
proof (cases "draw_loop di (paintQueue s) s")
  case (Returned t)
  then obtain oc q' where t: "t = s\<lparr>overlayCanvas := oc, paintQueue := q'\<rparr>"
    using draw_loop_frame [of di "paintQueue s" s t] by auto
  have "s' = t\<lparr>trace := trace t @ [RequestAnimationFrame]\<rparr>"
    using assms Returned by (simp add: draw_def then_do_def)
  then have "s' = s\<lparr>overlayCanvas := oc, paintQueue := q', trace := trace s @ [RequestAnimationFrame]\<rparr>"
    by (simp add: t)
  then show ?thesis by blast
next
  case (Threw err t)
  then obtain oc q' where t: "t = s\<lparr>overlayCanvas := oc, paintQueue := q'\<rparr>"
    using draw_loop_frame [of di "paintQueue s" s t] by auto
  have "s' = t" using assms Threw by (simp add: draw_def then_do_def)
  then have "s' = s\<lparr>overlayCanvas := oc, paintQueue := q', trace := trace s\<rparr>"
    by (simp add: t)
  then show ?thesis by blast
next
  case Hangs
  then show ?thesis using assms by (simp add: draw_def then_do_def)
qed

section \<open>The completion callback is called at most once\<close>





lemma call_quiet: "called \<noteq> RevealCallback \<Longrightarrow> final (call f called s) = Some s' \<Longrightarrow> quiet s s'"
  by (auto simp: call_def quiet_def reveal_count_def split: if_splits)










section \<open>The spacing stays half the brush width\<close>

lemma initialised_spacing:
  "minPointDist (initialised ev oc bc s) = Fin (real (width bc) / 2)"
  by (simp add: initialised_def)

lemma addPoint_configured: "addPoint p tw s = Some s' \<Longrightarrow> configured s s'"
  by (auto simp: addPoint_def configured_def Let_def split: option.splits if_splits)

lemma onPointerDown_configured: "final (onPointerDown e s) = Some s' \<Longrightarrow> configured s s'"
  by (auto simp: onPointerDown_def cancelEvent_def Let_def configured_def call_def
      dest!: addPoint_configured split: sum.splits option.splits if_splits)

lemma onPointerMove_configured: "final (onPointerMove e s) = Some s' \<Longrightarrow> configured s s'"
  by (auto simp: onPointerMove_def cancelEvent_def Let_def configured_def
      dest!: addPoint_configured split: sum.splits option.splits if_splits)

lemma onResize_configured: "final (onResize w s) = Some s' \<Longrightarrow> configured s s'"
  by (auto simp: onResize_def configured_def split: option.splits)

lemma testRevealed_configured: "final (testRevealed s) = Some s' \<Longrightarrow> configured s s'"
  by (auto simp: testRevealed_def configured_def Let_def split: option.splits if_splits)

lemma onPointerUp_configured: "final (onPointerUp e s) = Some s' \<Longrightarrow> configured s s'"
  by (auto simp: onPointerUp_def cancelEvent_def call_def then_do_def configured_def Let_def
      dest!: testRevealed_configured split: if_splits)

lemma draw_configured: "final (draw di s) = Some s' \<Longrightarrow> configured s s'"
  by (drule draw_frame) (auto simp: configured_def)

lemma step_configured: "final (step di a s) = Some s' \<Longrightarrow> configured s s'"
  by (cases a)
    (auto dest: onPointerDown_configured onPointerMove_configured onPointerUp_configured
      onResize_configured draw_configured)

lemma run_configured: "run di ops s = Some s' \<Longrightarrow> configured s s'"
proof (induction ops arbitrary: s)
  case Nil
  then show ?case by (simp add: configured_def)
next
  case (Cons a ops)
  then obtain t where t: "final (step di a s) = Some t" "run di ops t = Some s'"
    by (auto split: option.splits)
  then have "configured s t" "configured t s'" using step_configured Cons.IH by blast+
  then show ?case by (simp add: configured_def)
qed

lemma spacing_is_half_brush_width:
  assumes "run di ops (initialised ev oc bc s) = Some s'"
  shows "minPointDist s' = Fin (real (width bc) / 2)"
  using run_configured [OF assms] by (simp add: configured_def initialised_spacing)

section \<open>Erasure\<close>

lemma faded_refl: "faded c c"
  by (simp add: faded_def list_all2_refl)

lemma faded_trans:
  assumes "faded a b" "faded b c"
  shows "faded a c"
proof -
  have cb: "list_all2 (\<lambda>a' a. a' \<le> a) (alphas (data c)) (alphas (data b))"
    and ba: "list_all2 (\<lambda>a' a. a' \<le> a) (alphas (data b)) (alphas (data a))"
    using assms by (simp_all add: faded_def)
  have "list_all2 (\<lambda>a' a. a' \<le> a) (alphas (data c)) (alphas (data a))"
    by (rule list_all2_trans [OF _ cb ba]) (rule order_trans)
  then show ?thesis using assms by (simp add: faded_def)
qed

lemma erased_refl: "erased s s"
  by (auto simp: erased_def faded_refl split: option.splits)

lemma erased_trans: "erased s t \<Longrightarrow> erased t u \<Longrightarrow> erased s u"
  by (auto simp: erased_def split: option.splits intro: faded_trans)

lemma untouched_erased: "untouched s s' \<Longrightarrow> erased s s'"
  by (auto simp: untouched_def erased_def faded_refl split: option.splits)

lemma blend_alpha_le: "blend_alpha DestinationOut src dst \<le> dst"
proof -
  have "unat dst * (255 - unat src) div 255 \<le> unat dst * 255 div 255"
    by (intro div_le_mono mult_le_mono2) simp
  then have le: "unat dst * (255 - unat src) div 255 \<le> unat dst" by simp
  have "unat (of_nat (unat dst * (255 - unat src) div 255) :: 8 word) =
        unat dst * (255 - unat src) div 255"
    by (rule le_unat_uoi [OF le])
  then show ?thesis using le by (simp add: blend_alpha_def word_le_nat_alt)
qed

lemma alphas_stamp_data:
  "list_all2 (\<lambda>a' a. a' \<le> a) (alphas (stamp_data DestinationOut src ox oy w i ds)) (alphas ds)"
  by (induction DestinationOut src ox oy w i ds rule: stamp_data.induct)
    (simp_all add: blend_alpha_le list_all2_refl)

lemma stamp_erasing: "erasing stamp"
  by (auto simp: erasing_def stamp_def faded_def alphas_stamp_data faded_refl list_all2_refl
      split: if_splits js_number.splits)

lemma filter_fade:
  "list_all2 (\<lambda>a' a. a' \<le> a) xs' xs \<Longrightarrow>
   length (filter (\<lambda>a. a \<le> (t::8 word)) xs) \<le> length (filter (\<lambda>a. a \<le> t) xs')"
  by (induction rule: list_all2_induct) auto

lemma faded_count: "faded c c' \<Longrightarrow> revealedPixelCount c \<le> revealedPixelCount c'"
  by (simp add: faded_def revealedPixelCount_def filter_fade)

lemma faded_fraction: "faded c c' \<Longrightarrow> revealedFraction c \<le> revealedFraction c'"
proof -
  assume f: "faded c c'"
  then have "real (revealedPixelCount c) \<le> real (revealedPixelCount c')"
    using faded_count by simp
  moreover have "width c' * height c' = width c * height c" using f by (simp add: faded_def)
  ultimately show ?thesis
    by (simp add: revealedFraction_def divide_right_mono)
qed

lemma addPoint_untouched: "addPoint p tw s = Some s' \<Longrightarrow> untouched s s'"
  by (auto simp: addPoint_def untouched_def Let_def split: option.splits if_splits)

lemma onPointerDown_untouched: "final (onPointerDown e s) = Some s' \<Longrightarrow> untouched s s'"
  by (auto simp: onPointerDown_def cancelEvent_def Let_def untouched_def call_def
      dest!: addPoint_untouched split: sum.splits option.splits if_splits)

lemma onPointerMove_untouched: "final (onPointerMove e s) = Some s' \<Longrightarrow> untouched s s'"
  by (auto simp: onPointerMove_def cancelEvent_def Let_def untouched_def
      dest!: addPoint_untouched split: sum.splits option.splits if_splits)

lemma onResize_untouched: "final (onResize w s) = Some s' \<Longrightarrow> untouched s s'"
  by (auto simp: onResize_def untouched_def split: option.splits)

lemma testRevealed_untouched: "final (testRevealed s) = Some s' \<Longrightarrow> untouched s s'"
  by (auto simp: testRevealed_def untouched_def Let_def split: option.splits if_splits)

lemma onPointerUp_untouched: "final (onPointerUp e s) = Some s' \<Longrightarrow> untouched s s'"
  by (auto simp: onPointerUp_def cancelEvent_def call_def then_do_def untouched_def Let_def
      dest!: testRevealed_untouched split: if_splits)

lemma draw_loop_erased:
  "erasing di \<Longrightarrow> overlayCtx s = Some DestinationOut \<Longrightarrow>
   final (draw_loop di q s) = Some s' \<Longrightarrow> erased s s'"
proof (induction q arbitrary: s)
  case Nil
  then show ?case by (auto simp: erased_def faded_refl split: option.splits)
next
  case (Cons point rest)
  show ?case
  proof (cases "overlayCanvas s")
    case None
    then show ?thesis using Cons.prems by (auto simp: erased_def)
  next
    case oc: (Some c)
    show ?thesis
    proof (cases "brushCanvas s")
      case None
      then show ?thesis using Cons.prems oc by (auto simp: erased_def faded_refl)
    next
      case bc: (Some b)
      show ?thesis
      proof (cases "di DestinationOut b
                  (js_sub (fst point) (js_div (Fin (real (width b))) (Fin 2)))
                  (js_sub (snd point) (js_div (Fin (real (height b))) (Fin 2))) c")
        case (Inl err)
        then show ?thesis using Cons.prems oc bc by (auto simp: erased_def faded_refl)
      next
        case (Inr c')
        let ?t = "s\<lparr>overlayCanvas := Some c', paintQueue := rest\<rparr>"
        have f: "faded c c'" using Cons.prems(1) Inr by (auto simp: erasing_def)
        have "final (draw_loop di rest ?t) = Some s'"
          using Cons.prems oc bc Inr by simp
        moreover have "overlayCtx ?t = Some DestinationOut"
          using Cons.prems(2) by simp
        ultimately have "erased ?t s'"
          using Cons.IH Cons.prems(1) by blast
        then show ?thesis using f oc Cons.prems(2) by (auto simp: erased_def intro: faded_trans)
      qed
    qed
  qed
qed

lemma draw_erased:
  assumes "erasing di" "overlayCtx s = Some DestinationOut" "final (draw di s) = Some s'"
  shows "erased s s'"
proof (cases "draw_loop di (paintQueue s) s")
  case (Returned t)
  then have "erased s t" using draw_loop_erased [OF assms(1,2), of "paintQueue s" t] by simp
  moreover have "s' = t\<lparr>trace := trace t @ [RequestAnimationFrame]\<rparr>"
    using assms(3) Returned by (simp add: draw_def then_do_def)
  ultimately show ?thesis by (auto simp: erased_def split: option.splits)
next
  case (Threw err t)
  then have "erased s t" using draw_loop_erased [OF assms(1,2), of "paintQueue s" t] by simp
  moreover have "s' = t" using assms(3) Threw by (simp add: draw_def then_do_def)
  ultimately show ?thesis by simp
next
  case Hangs
  then show ?thesis using assms(3) by (simp add: draw_def then_do_def)
qed

lemma step_erased:
  assumes "erasing di" "overlayCtx s = Some DestinationOut" "final (step di a s) = Some s'"
  shows "erased s s'"
  using assms
  by (cases a)
    (auto dest: onPointerDown_untouched onPointerMove_untouched onPointerUp_untouched
      onResize_untouched draw_erased intro: untouched_erased)

lemma run_erased:
  "erasing di \<Longrightarrow> overlayCtx s = Some DestinationOut \<Longrightarrow> run di ops s = Some s' \<Longrightarrow> erased s s'"
proof (induction ops arbitrary: s)
  case Nil
  then show ?case by (simp add: erased_refl)
next
  case (Cons a ops)
  then obtain t where t: "final (step di a s) = Some t" "run di ops t = Some s'"
    by (auto split: option.splits)
  have st: "erased s t" by (rule step_erased [OF Cons.prems(1,2) t(1)])
  then have "overlayCtx t = Some DestinationOut" using Cons.prems(2) by (simp add: erased_def)
  then have "erased t s'" using Cons.IH Cons.prems(1) t(2) by blast
  then show ?case using st erased_trans by blast
qed

text \<open>
  Claim C8. Let the platform's \<open>drawImage\<close> fade its destination under
  \<open>destination-out\<close>, and take an engine whose overlay context has that blend mode, as
  initialisation leaves it. After any sequence of engine operations that comes to an end,
  the context still has that blend mode, the overlay has its dimensions, no pixel of it has
  a higher alpha than before, the count of the reveal test is at least what it was, and
  so is the revealed fraction of an overlay that has pixels.
\<close>

theorem erasure_monotone:
  assumes platform: "erasing di"
    and ctx: "overlayCtx s = Some DestinationOut"
    and canvas: "overlayCanvas s = Some c"
    and run: "run di ops s = Some s'"
  shows "\<exists>c'. overlayCanvas s' = Some c' \<and> overlayCtx s' = Some DestinationOut \<and>
              width c' = width c \<and> height c' = height c \<and>
              list_all2 (\<lambda>a' a. a' \<le> a) (alphas (data c')) (alphas (data c)) \<and>
              count_visible (data c) 0 \<le> count_visible (data c') 0 \<and>
              (0 < width c \<and> 0 < height c \<longrightarrow> revealedFraction c \<le> revealedFraction c')"
proof -
  have "erased s s'" by (rule run_erased [OF platform ctx run])
  then obtain c' where c': "overlayCanvas s' = Some c'" "faded c c'" "overlayCtx s' = overlayCtx s"
    using canvas by (auto simp: erased_def)
  have "count_visible (data c) 0 \<le> count_visible (data c') 0"
    using faded_count [OF c'(2)] by (simp add: count_visible_alphas revealedPixelCount_def)
  then show ?thesis
    using c' ctx faded_fraction [OF c'(2)] by (auto simp: faded_def)
qed

section \<open>The properties on the examples\<close>

lemma tiny_erased_count: "revealedPixelCount tiny_erased = 3"
  by (simp add: revealedPixelCount_def tiny_erased_def tiny_overlay_def)

lemma tiny_erased_size: "width tiny_erased = 2" "height tiny_erased = 2"
  "length (data tiny_erased) = 16"
  by (simp_all add: tiny_erased_def tiny_overlay_def)

lemma tiny_erased_fraction: "revealedFraction tiny_erased = 75"
  by (simp add: revealedFraction_def tiny_erased_count tiny_erased_size)

lemma tiny_drawn_fields:
  "overlayCanvas tiny_drawn = Some tiny_erased" "overlayCtx tiny_drawn = Some DestinationOut"
  "isPointerDown tiny_drawn = True" "isRevealed tiny_drawn = False"
  "revealThreshold tiny_drawn = Fin 50" "upCallback tiny_drawn = JSFunction"
  by (simp_all add: tiny_drawn_def tiny_down_def tiny_ex_fields)

lemma tiny_step_up: "onPointerUp (mouse_ex (11, 11) (1, 1)) tiny_drawn = Returned tiny_done"
proof -
  let ?mid = "tiny_drawn\<lparr>isPointerDown := False, lastPoint := None, pointerOrigin := (0, 0),
                offsetOrigin := (0, 0), trace := trace tiny_drawn @ [CancelEvent, UpCallback]\<rparr>"
  have "testRevealed ?mid =
          (if js_ge (Fin (revealedFraction tiny_erased)) (revealThreshold ?mid)
           then fires ?mid else stays ?mid)"
    by (rule testRevealed_first) (simp_all add: tiny_drawn_fields tiny_erased_size)
  then have "testRevealed ?mid = fires ?mid"
    by (simp add: tiny_erased_fraction tiny_drawn_fields js_ge_def)
  then show ?thesis
    by (simp add: onPointerUp_stroking tiny_drawn_fields fires_def tiny_done_def)
qed

lemma tiny_first_stroke:
  "run stamp [PointerDown (mouse_ex (11, 11) (1, 1)), Frame, PointerUp (mouse_ex (11, 11) (1, 1))]
     tiny_ex = Some tiny_done"
  by (simp add: tiny_step_down tiny_step_frame tiny_step_up)

lemma tiny_done_fields:
  "overlayCanvas tiny_done = Some tiny_erased" "overlayCtx tiny_done = Some DestinationOut"
  "isPointerDown tiny_done = False" "isRevealed tiny_done = True"
  "scale tiny_done = Fin 1" "paintQueue tiny_done = []" "lastPoint tiny_done = None"
  "downCallback tiny_done = JSFunction" "upCallback tiny_done = JSFunction"
  by (simp_all add: tiny_done_def tiny_drawn_def tiny_down_def tiny_ex_fields)




text \<open>
  Claim C8 on the small example, with the render loop drawing by \<open>stamp\<close>: after the
  first stroke no pixel is more opaque, and the revealed fraction has not gone down.
\<close>

theorem erasure_monotone_witness:
  "erasing stamp \<and> overlayCtx tiny_ex = Some DestinationOut \<and>
   overlayCanvas tiny_ex = Some tiny_overlay \<and>
   run stamp [PointerDown (mouse_ex (11, 11) (1, 1)), Frame, PointerUp (mouse_ex (11, 11) (1, 1))]
     tiny_ex = Some tiny_done \<and>
   overlayCanvas tiny_done = Some tiny_erased \<and>
   0 < width tiny_overlay \<and> 0 < height tiny_overlay \<and>
   count_visible (data tiny_overlay) 0 \<le> count_visible (data tiny_erased) 0 \<and>
   revealedFraction tiny_overlay \<le> revealedFraction tiny_erased"
proof -
  have size: "0 < width tiny_overlay" "0 < height tiny_overlay"
    by (simp_all add: tiny_overlay_def)
  show ?thesis
    using erasure_monotone [OF stamp_erasing tiny_ex_fields(3) tiny_ex_fields(1) tiny_first_stroke]
      stamp_erasing tiny_first_stroke size
    by (simp add: tiny_ex_fields tiny_done_fields del: run.simps)
qed

lemma overlay_ex_count: "revealedPixelCount overlay_ex = 0"
proof -
  have "alphas (data overlay_ex) = replicate 20000 255"
    unfolding overlay_ex_def by (simp only: canvas.select_convs alphas_replicate)
  then show ?thesis by (simp add: revealedPixelCount_def)
qed

lemma overlay_ex_size: "width overlay_ex = 200" "height overlay_ex = 100"
  by (simp_all add: overlay_ex_def)

lemma overlay_ex_fraction: "revealedFraction overlay_ex = 0"
  by (simp add: revealedFraction_def overlay_ex_count)

lemma stroke_ex_release:
  "testRevealed (stroke_ex\<lparr>isPointerDown := False, lastPoint := None, pointerOrigin := (0, 0),
                   offsetOrigin := (0, 0), trace := trace stroke_ex @ [CancelEvent, UpCallback]\<rparr>) =
   Returned (stroke_ex\<lparr>isPointerDown := False, lastPoint := None, pointerOrigin := (0, 0),
               offsetOrigin := (0, 0),
               trace := trace stroke_ex @ [CancelEvent, UpCallback, GetImageData]\<rparr>)"
proof -
  let ?mid = "stroke_ex\<lparr>isPointerDown := False, lastPoint := None, pointerOrigin := (0, 0),
                offsetOrigin := (0, 0), trace := trace stroke_ex @ [CancelEvent, UpCallback]\<rparr>"
  have "testRevealed ?mid =
          (if js_ge (Fin (revealedFraction overlay_ex)) (revealThreshold ?mid)
           then fires ?mid else stays ?mid)"
    by (rule testRevealed_first) (simp_all add: stroke_ex_fields overlay_ex_size)
  then show ?thesis
    by (simp add: overlay_ex_fraction stroke_ex_fields js_ge_def stays_def)
qed

text \<open>
  Claim C7 on the first example: a release without a stroke, and the release of the stroke
  over the still opaque overlay.
\<close>

theorem onPointerUp_behaviour_witness:
  "\<not> isPointerDown ready_ex \<and>
   onPointerUp (mouse_ex (50, 60) (0, 0)) ready_ex = Returned ready_ex \<and>
   isPointerDown stroke_ex \<and> upCallback stroke_ex = JSFunction \<and>
   overlayCanvas stroke_ex = Some overlay_ex \<and> overlayCtx stroke_ex \<noteq> None \<and>
   0 < width overlay_ex \<and> 0 < height overlay_ex \<and>
   onPointerUp (mouse_ex (50, 60) (0, 0)) stroke_ex =
     Returned (stroke_ex\<lparr>isPointerDown := False, lastPoint := None, pointerOrigin := (0, 0),
                 offsetOrigin := (0, 0),
                 trace := trace stroke_ex @ [CancelEvent, UpCallback, GetImageData]\<rparr>)"
  using onPointerUp_behaviour [of ready_ex "mouse_ex (50, 60) (0, 0)"]
    onPointerUp_behaviour [of stroke_ex "mouse_ex (50, 60) (0, 0)" overlay_ex]
  by (simp add: ready_ex_fields stroke_ex_fields overlay_ex_size stroke_ex_release)


end
